theory Spec2Isabelle
  imports Main "HOL-Library.Sublist"
begin

section \<open>Python strings\<close>

text \<open>
  The response classifier is the line scanner inside \<^verbatim>\<open>display_results\<close> of
  \<^verbatim>\<open>src/app.py\<close> (lines 116 to 142), followed by the rendering of what it found
  (lines 144 to 161). A Python \<^verbatim>\<open>str\<close> is a sequence of Unicode code points, so a
  string is modelled as a list of code points, each a natural number. An ASCII literal of
  the source is written \<open>str ''...''\<close>; the bullet of lines 138 to 142 is the code point
  8226 (U+2022).
\<close>

type_synonym pystr = "nat list"

definition str :: "string \<Rightarrow> pystr" where
  "str s = map of_char s"

text \<open>\<^verbatim>\<open>s.startswith(p)\<close>.\<close>

fun startswith :: "pystr \<Rightarrow> pystr \<Rightarrow> bool" where
  "startswith s [] = True"
| "startswith [] (p # ps) = False"
| "startswith (c # cs) (p # ps) = (c = p \<and> startswith cs ps)"

text \<open>\<^verbatim>\<open>sub in s\<close>: \<open>sub\<close> occurs in \<open>s\<close> as a contiguous run.\<close>

fun is_in :: "pystr \<Rightarrow> pystr \<Rightarrow> bool" where
  "is_in sub [] = (sub = [])"
| "is_in sub (c # cs) = (startswith (c # cs) sub \<or> is_in sub cs)"

text \<open>
  \<^verbatim>\<open>s.split('\n')\<close>: cut at every line feed (code point 10) and at nothing else; the
  result is never empty, and the empty string gives one empty line. The first argument
  holds the characters of the current line, last one first.
\<close>

fun split_acc :: "pystr \<Rightarrow> pystr \<Rightarrow> pystr list" where
  "split_acc cur [] = [rev cur]"
| "split_acc cur (c # cs) =
     (if c = 10 then rev cur # split_acc [] cs else split_acc (c # cur) cs)"

definition split_nl :: "pystr \<Rightarrow> pystr list" where
  "split_nl s = split_acc [] s"

text \<open>
  \<^verbatim>\<open>c.isspace()\<close>, which decides what \<^verbatim>\<open>strip()\<close> removes: the 29 white space
  code points of CPython 3 (Unicode 14.0).
\<close>

definition isspace :: "nat \<Rightarrow> bool" where
  "isspace c =
     ((9 \<le> c \<and> c \<le> 13) \<or> (28 \<le> c \<and> c \<le> 32) \<or> c = 133 \<or> c = 160 \<or> c = 5760
      \<or> (8192 \<le> c \<and> c \<le> 8202) \<or> c = 8232 \<or> c = 8233 \<or> c = 8239 \<or> c = 8287
      \<or> c = 12288)"

text \<open>\<^verbatim>\<open>s.strip()\<close>: white space removed at both ends.\<close>

definition strip :: "pystr \<Rightarrow> pystr" where
  "strip s = rev (dropWhile isspace (rev (dropWhile isspace s)))"

text \<open>\<^verbatim>\<open>s.lstrip(chars)\<close>: the longest leading run of characters of \<open>chars\<close> removed.\<close>

definition lstrip :: "pystr \<Rightarrow> pystr \<Rightarrow> pystr" where
  "lstrip chars s = dropWhile (\<lambda>c. c \<in> set chars) s"

text \<open>\<^verbatim>\<open>s.replace(c, '')\<close> for a one-character \<open>c\<close>: every occurrence of \<open>c\<close> removed.\<close>

definition replace_del :: "nat \<Rightarrow> pystr \<Rightarrow> pystr" where
  "replace_del c s = filter (\<lambda>x. x \<noteq> c) s"

text \<open>
  \<^verbatim>\<open>c.isdigit()\<close>: the code points of numeric type Decimal or Digit, as inclusive
  ranges (CPython 3.11, Unicode 14.0: 788 code points in 81 ranges). The ASCII digits
  are the first range; superscript two (178) and the Devanagari digits (2406 to 2415)
  are among the others.
\<close>

definition digit_ranges :: "(nat \<times> nat) list" where
  "digit_ranges =
    [(48, 57), (178, 179), (185, 185), (1632, 1641), (1776, 1785), (1984, 1993),
     (2406, 2415), (2534, 2543), (2662, 2671), (2790, 2799), (2918, 2927), (3046, 3055),
     (3174, 3183), (3302, 3311), (3430, 3439), (3558, 3567), (3664, 3673), (3792, 3801),
     (3872, 3881), (4160, 4169), (4240, 4249), (4969, 4977), (6112, 6121), (6160, 6169),
     (6470, 6479), (6608, 6618), (6784, 6793), (6800, 6809), (6992, 7001), (7088, 7097),
     (7232, 7241), (7248, 7257), (8304, 8304), (8308, 8313), (8320, 8329), (9312, 9320),
     (9332, 9340), (9352, 9360), (9450, 9450), (9461, 9469), (9471, 9471),
     (10102, 10110), (10112, 10120), (10122, 10130), (42528, 42537), (43216, 43225),
     (43264, 43273), (43472, 43481), (43504, 43513), (43600, 43609), (44016, 44025),
     (65296, 65305), (66720, 66729), (68160, 68163), (68912, 68921), (69216, 69224),
     (69714, 69722), (69734, 69743), (69872, 69881), (69942, 69951), (70096, 70105),
     (70384, 70393), (70736, 70745), (70864, 70873), (71248, 71257), (71360, 71369),
     (71472, 71481), (71904, 71913), (72016, 72025), (72784, 72793), (73040, 73049),
     (73120, 73129), (92768, 92777), (92864, 92873), (93008, 93017), (120782, 120831),
     (123200, 123209), (123632, 123641), (125264, 125273), (127232, 127242),
     (130032, 130041)]"

definition isdigit :: "nat \<Rightarrow> bool" where
  "isdigit c = list_ex (\<lambda>(lo, hi). lo \<le> c \<and> c \<le> hi) digit_ranges"

text \<open>
  \<^verbatim>\<open>s.lower()\<close>, which the source uses only to look for ASCII keywords in a line.
  Three kinds of code point have a lower-case form that holds an ASCII character: the
  letters A to Z, the dotted capital I (304, which becomes i followed by the combining dot
  775) and the Kelvin sign (8490, which becomes k). They are mapped as Python maps them.
  Every other code point is left as it is; where Python changes one of them, it puts one
  code point beyond ASCII in the place of another, which no test for an ASCII keyword
  can tell apart.
\<close>

definition lower_cp :: "nat \<Rightarrow> pystr" where
  "lower_cp c =
     (if 65 \<le> c \<and> c \<le> 90 then [c + 32]
      else if c = 304 then [105, 775]
      else if c = 8490 then [107]
      else [c])"

definition lower :: "pystr \<Rightarrow> pystr" where
  "lower s = concat (map lower_cp s)"

section \<open>The line scanner\<close>

datatype py_error = IndexError

text \<open>\<^verbatim>\<open>line[0]\<close>, which raises on the empty string.\<close>

definition index0 :: "pystr \<Rightarrow> py_error + nat" where
  "index0 s = (case s of [] \<Rightarrow> Inl IndexError | c # _ \<Rightarrow> Inr c)"

text \<open>
  The value of \<^verbatim>\<open>current_section\<close>: \<^verbatim>\<open>None\<close>, \<^verbatim>\<open>"disease"\<close>,
  \<^verbatim>\<open>"symptoms"\<close> or \<^verbatim>\<open>"actions"\<close>.
\<close>

datatype section_name = NoSection | Disease | Symptoms | Actions

text \<open>
  The three results of the scan (line 117) and, with the section cursor (line 118), the
  variables the loop works on.
\<close>

record parsed_advisory =
  disease_name :: pystr
  symptoms :: "pystr list"
  actions :: "pystr list"

record scan_state = parsed_advisory +
  current_section :: section_name

definition init_state :: scan_state where
  "init_state = \<lparr>disease_name = [], symptoms = [], actions = [], current_section = NoSection\<rparr>"

text \<open>The argument of both \<^verbatim>\<open>lstrip\<close> calls: \<^verbatim>\<open>'-\<bullet>0123456789. '\<close>.\<close>

definition bullet_chars :: pystr where
  "bullet_chars = [45, 8226] @ str ''0123456789. ''"

text \<open>
  The condition of lines 138 and 141. Python's \<^verbatim>\<open>or\<close> evaluates \<^verbatim>\<open>line[0]\<close> only
  when both \<^verbatim>\<open>startswith\<close> tests have failed.
\<close>

definition starts_marked :: "pystr \<Rightarrow> py_error + bool" where
  "starts_marked line =
     (if startswith line [45] then Inr True
      else if startswith line [8226] then Inr True
      else (case index0 line of Inl e \<Rightarrow> Inl e | Inr c \<Rightarrow> Inr (isdigit c)))"

text \<open>The header tests of lines 125, 128 and 131, on the trimmed line.\<close>

definition disease_header :: "pystr \<Rightarrow> bool" where
  "disease_header line =
     (is_in (str ''disease'') (lower line) \<and> is_in (str ''identification'') (lower line))"

definition symptoms_header :: "pystr \<Rightarrow> bool" where
  "symptoms_header line = is_in (str ''symptom'') (lower line)"

definition actions_header :: "pystr \<Rightarrow> bool" where
  "actions_header line =
     (is_in (str ''action'') (lower line) \<or> is_in (str ''treatment'') (lower line)
      \<or> is_in (str ''recommend'') (lower line))"

text \<open>The body of the loop (lines 121 to 142), for one element of \<^verbatim>\<open>lines\<close>.\<close>

definition process_line :: "scan_state \<Rightarrow> pystr \<Rightarrow> py_error + scan_state" where
  "process_line st raw =
     (let line = strip raw in
      if line = [] then Inr st
      else if disease_header line then Inr (st\<lparr>current_section := Disease\<rparr>)
      else if symptoms_header line then Inr (st\<lparr>current_section := Symptoms\<rparr>)
      else if actions_header line then Inr (st\<lparr>current_section := Actions\<rparr>)
      else if current_section st = Disease \<and> line \<noteq> [] \<and> disease_name st = []
        then Inr (st\<lparr>disease_name := strip (replace_del 35 (replace_del 42 line))\<rparr>)
      else if current_section st = Symptoms \<and> line \<noteq> []
        then (case starts_marked line of
                Inl e \<Rightarrow> Inl e
              | Inr b \<Rightarrow> Inr (if b then st\<lparr>symptoms := symptoms st @ [lstrip bullet_chars line]\<rparr>
                              else st))
      else if current_section st = Actions \<and> line \<noteq> []
        then (case starts_marked line of
                Inl e \<Rightarrow> Inl e
              | Inr b \<Rightarrow> Inr (if b then st\<lparr>actions := actions st @ [lstrip bullet_chars line]\<rparr>
                              else st))
      else Inr st)"

text \<open>The loop of line 120: the lines in order, stopping at the first raise.\<close>

fun scan_lines :: "scan_state \<Rightarrow> pystr list \<Rightarrow> py_error + scan_state" where
  "scan_lines st [] = Inr st"
| "scan_lines st (l # ls) =
     (case process_line st l of Inl e \<Rightarrow> Inl e | Inr st' \<Rightarrow> scan_lines st' ls)"

text \<open>
  Lines 116 to 142 as one function of the text: what the specification calls
  \<^verbatim>\<open>classify\<close>. The result is the three variables the rendering reads.
\<close>

definition classify :: "pystr \<Rightarrow> py_error + parsed_advisory" where
  "classify analysis_text =
     (case scan_lines init_state (split_nl analysis_text) of
        Inl e \<Rightarrow> Inl e
      | Inr st \<Rightarrow> Inr \<lparr>disease_name = disease_name st, symptoms = symptoms st,
                       actions = actions st\<rparr>)"

section \<open>Rendering\<close>

text \<open>
  The calls \<^verbatim>\<open>display_results\<close> makes on Streamlit: \<^verbatim>\<open>st.markdown\<close> with its
  text and its \<^verbatim>\<open>unsafe_allow_html\<close> flag, and \<^verbatim>\<open>st.info\<close>. The page is the list
  of the calls made so far.
\<close>

datatype st_call = Markdown pystr bool | Info pystr

text \<open>
  Lines 144 to 158: what is shown for the three results. An empty string and an empty
  list count as false in Python. The code points beyond ASCII are the magnifying glass
  (128269), the clipboard (128203), the light bulb (128161) and the bullet (8226).
\<close>

definition render :: "pystr \<Rightarrow> parsed_advisory \<Rightarrow> st_call list" where
  \<open>render analysis_text a =
     (if disease_name a \<noteq> []
      then [Markdown (str ''<div class="disease-name">'' @ [128269, 32] @ disease_name a
                      @ str ''</div>'') True]
      else [])
     @ (if symptoms a \<noteq> []
        then Markdown (str ''<div class="section-header">'' @ [128203]
                       @ str '' Visible Symptoms:</div>'') True
             # map (\<lambda>s. Markdown ([8226, 32] @ s) False) (symptoms a)
        else [])
     @ (if actions a \<noteq> []
        then Markdown (str ''<div class="section-header">'' @ [128161]
                       @ str '' Recommended Actions:</div>'') True
             # map (\<lambda>s. Markdown ([8226, 32] @ s) False) (actions a)
        else [])
     @ (if disease_name a = [] \<and> symptoms a = [] \<and> actions a = []
        then [Markdown analysis_text False]
        else [])\<close>

text \<open>
  \<^verbatim>\<open>display_results\<close> (lines 112 to 161) on a page \<open>page\<close>. The information sign
  of line 160 is the code points 8505 and 65039. A raise inside the scan would leave
  the function at once; the result is then the error alone.
\<close>

definition display_results :: "st_call list \<Rightarrow> pystr \<Rightarrow> py_error + st_call list" where
  \<open>display_results page analysis_text =
     (case classify analysis_text of
        Inl e \<Rightarrow> Inl e
      | Inr a \<Rightarrow>
          Inr (page @ [Markdown (str ''<div class="result-container">'') True]
               @ render analysis_text a
               @ [Info ([8505, 65039]
                        @ str '' **AI-generated advisory** - For educational purposes only''),
                  Markdown (str ''</div>'') True]))\<close>

section \<open>Notions used to state the properties\<close>

text \<open>A trimmed line that one of the three header tests accepts.\<close>

definition is_header :: "pystr \<Rightarrow> bool" where
  "is_header line = (disease_header line \<or> symptoms_header line \<or> actions_header line)"

text \<open>
  The characters of the \<^verbatim>\<open>lstrip\<close> argument, one by one: hyphen, bullet, the ASCII
  digits, full stop and space.
\<close>

definition marker_char :: "nat \<Rightarrow> bool" where
  "marker_char c = (c = 45 \<or> c = 8226 \<or> (48 \<le> c \<and> c \<le> 57) \<or> c = 46 \<or> c = 32)"

text \<open>The first characters that lines 138 and 141 accept.\<close>

definition bullet_start :: "nat \<Rightarrow> bool" where
  "bullet_start c = (c = 45 \<or> c = 8226 \<or> isdigit c)"

text \<open>The text that line 136 stores for a trimmed line.\<close>

definition clean_name :: "pystr \<Rightarrow> pystr" where
  "clean_name line = strip (replace_del 35 (replace_del 42 line))"

text \<open>The section cursor after one more line.\<close>

definition section_after :: "section_name \<Rightarrow> pystr \<Rightarrow> section_name" where
  "section_after sec raw =
     (if strip raw = [] then sec
      else if disease_header (strip raw) then Disease
      else if symptoms_header (strip raw) then Symptoms
      else if actions_header (strip raw) then Actions
      else sec)"

text \<open>
  The lines of the disease section: the trimmed lines that are neither empty nor
  headers and are met while the cursor is \<open>Disease\<close>, in order.
\<close>

fun disease_lines :: "section_name \<Rightarrow> pystr list \<Rightarrow> pystr list" where
  "disease_lines sec [] = []"
| "disease_lines sec (raw # rest) =
     (if sec = Disease \<and> strip raw \<noteq> [] \<and> \<not> is_header (strip raw) then [strip raw] else [])
     @ disease_lines (section_after sec raw) rest"

text \<open>\<^verbatim>\<open>'\n'.join(ls)\<close>, to write a text line by line.\<close>

fun join_nl :: "pystr list \<Rightarrow> pystr" where
  "join_nl [] = []"
| "join_nl [l] = l"
| "join_nl (l # ls) = l @ 10 # join_nl ls"

section \<open>Facts about the string operations\<close>

lemma startswith_prefix: "startswith s p \<longleftrightarrow> prefix p s"
  by (induction s p rule: startswith.induct) auto

lemma is_in_sublist: "is_in sub s \<longleftrightarrow> sublist sub s"
  by (induction s) (auto simp: startswith_prefix sublist_Cons_right)

lemma isdigit_ascii: "c < 128 \<Longrightarrow> isdigit c \<longleftrightarrow> 48 \<le> c \<and> c \<le> 57"
  by (auto simp: isdigit_def digit_ranges_def)

lemma bullet_chars_iff: "c \<in> set bullet_chars \<longleftrightarrow> marker_char c"
  by (simp add: bullet_chars_def str_def marker_char_def) arith

lemma lstrip_bullet_chars: "lstrip bullet_chars s = dropWhile marker_char s"
  by (simp add: lstrip_def bullet_chars_iff)

lemma starts_marked_Cons: "starts_marked (c # cs) = Inr (bullet_start c)"
  by (simp add: starts_marked_def index0_def bullet_start_def)

lemma starts_marked_nonempty:
  "line \<noteq> [] \<Longrightarrow> starts_marked line = Inr (bullet_start (hd line))"
  by (cases line) (simp_all add: starts_marked_Cons)

text \<open>The definitions a concrete text is evaluated with.\<close>

lemmas eval_defs = str_def strip_def isspace_def lower_def lower_cp_def split_nl_def
  process_line_def classify_def init_state_def starts_marked_def index0_def lstrip_def
  bullet_chars_def replace_del_def disease_header_def symptoms_header_def
  actions_header_def

section \<open>One line\<close>

lemma process_line_blank: "strip raw = [] \<Longrightarrow> process_line st raw = Inr st"
  by (simp add: process_line_def)

lemma process_line_disease_header:
  "strip raw \<noteq> [] \<Longrightarrow> disease_header (strip raw) \<Longrightarrow>
   process_line st raw = Inr (st\<lparr>current_section := Disease\<rparr>)"
  by (simp add: process_line_def)

lemma process_line_symptoms_header:
  "strip raw \<noteq> [] \<Longrightarrow> \<not> disease_header (strip raw) \<Longrightarrow> symptoms_header (strip raw) \<Longrightarrow>
   process_line st raw = Inr (st\<lparr>current_section := Symptoms\<rparr>)"
  by (simp add: process_line_def)

lemma process_line_actions_header:
  "strip raw \<noteq> [] \<Longrightarrow> \<not> disease_header (strip raw) \<Longrightarrow> \<not> symptoms_header (strip raw) \<Longrightarrow>
   actions_header (strip raw) \<Longrightarrow>
   process_line st raw = Inr (st\<lparr>current_section := Actions\<rparr>)"
  by (simp add: process_line_def)

lemma process_line_header:
  "strip raw \<noteq> [] \<Longrightarrow> is_header (strip raw) \<Longrightarrow>
   process_line st raw = Inr (st\<lparr>current_section := section_after (current_section st) raw\<rparr>)"
  by (auto simp: process_line_def is_header_def section_after_def Let_def)

text \<open>A line that is neither empty nor a header, by the section the cursor is in.\<close>

lemma process_line_body:
  assumes "strip raw \<noteq> []" and "\<not> is_header (strip raw)"
  shows "process_line st raw =
     Inr (case current_section st of
            NoSection \<Rightarrow> st
          | Disease \<Rightarrow>
              if disease_name st = []
              then st\<lparr>disease_name := clean_name (strip raw)\<rparr>
              else st
          | Symptoms \<Rightarrow>
              if bullet_start (hd (strip raw))
              then st\<lparr>symptoms := symptoms st @ [dropWhile marker_char (strip raw)]\<rparr>
              else st
          | Actions \<Rightarrow>
              if bullet_start (hd (strip raw))
              then st\<lparr>actions := actions st @ [dropWhile marker_char (strip raw)]\<rparr>
              else st)"
  using assms
  by (cases "current_section st")
     (simp_all add: process_line_def is_header_def Let_def starts_marked_nonempty
        lstrip_bullet_chars clean_name_def)

lemma process_line_total: "\<exists>st'. process_line st raw = Inr st'"
proof (cases "strip raw = []")
  case True
  then show ?thesis by (simp add: process_line_blank)
next
  case False
  show ?thesis
  proof (cases "is_header (strip raw)")
    case True
    with False show ?thesis
      by (simp add: process_line_header)
  next
    case False
    with \<open>strip raw \<noteq> []\<close> show ?thesis
      by (simp add: process_line_body)
  qed
qed

section \<open>The whole scan\<close>

lemma scan_lines_total: "\<exists>st'. scan_lines st ls = Inr st'"
proof (induction ls arbitrary: st)
  case Nil
  show ?case by simp
next
  case (Cons l ls)
  obtain st1 where "process_line st l = Inr st1"
    using process_line_total by blast
  with Cons show ?case by simp
qed

lemma is_header_Nil: "\<not> is_header []"
  by (simp add: is_header_def disease_header_def symptoms_header_def actions_header_def
      lower_def str_def)

lemma section_after_plain:
  "\<not> is_header (strip raw) \<Longrightarrow> section_after sec raw = sec"
  by (simp add: section_after_def is_header_def)

text \<open>What one line may change.\<close>

lemma process_line_section:
  assumes "process_line st raw = Inr st'"
  shows "current_section st' = section_after (current_section st) raw"
proof (cases "strip raw = []")
  case True
  with assms show ?thesis
    by (simp add: process_line_blank section_after_def)
next
  case False
  show ?thesis
  proof (cases "is_header (strip raw)")
    case True
    with False assms show ?thesis
      by (auto simp: process_line_header)
  next
    case False
    with \<open>strip raw \<noteq> []\<close> assms show ?thesis
      by (auto simp: process_line_body section_after_plain split: section_name.splits if_splits)
  qed
qed

lemma process_line_grows:
  assumes "process_line st raw = Inr st'"
  shows "prefix (symptoms st) (symptoms st') \<and> prefix (actions st) (actions st')
         \<and> (disease_name st \<noteq> [] \<longrightarrow> disease_name st' = disease_name st)"
proof (cases "strip raw = []")
  case True
  with assms show ?thesis
    by (simp add: process_line_blank)
next
  case False
  show ?thesis
  proof (cases "is_header (strip raw)")
    case True
    with False assms show ?thesis
      by (auto simp: process_line_header)
  next
    case False
    with \<open>strip raw \<noteq> []\<close> assms show ?thesis
      by (auto simp: process_line_body split: section_name.splits if_splits)
  qed
qed

lemma scan_lines_grows:
  "scan_lines st ls = Inr st' \<Longrightarrow>
   prefix (symptoms st) (symptoms st') \<and> prefix (actions st) (actions st')
   \<and> (disease_name st \<noteq> [] \<longrightarrow> disease_name st' = disease_name st)"
proof (induction ls arbitrary: st)
  case Nil
  then show ?case by simp
next
  case (Cons l ls)
  obtain st1 where step: "process_line st l = Inr st1"
    using process_line_total by blast
  with Cons.prems have rest: "scan_lines st1 ls = Inr st'"
    by simp
  from process_line_grows [OF step] Cons.IH [OF rest] show ?case
    by (auto intro: prefix_order.trans)
qed

lemma scan_lines_plain:
  assumes "list_all (\<lambda>r. \<not> is_header (strip r)) ls"
    and "current_section st = NoSection \<or> (current_section st = Disease \<and> disease_name st \<noteq> [])"
  shows "scan_lines st ls = Inr st"
  using assms
proof (induction ls)
  case Nil
  show ?case by simp
next
  case (Cons l ls)
  have "process_line st l = Inr st"
  proof (cases "strip l = []")
    case True
    then show ?thesis by (simp add: process_line_blank)
  next
    case False
    with Cons.prems show ?thesis
      by (auto simp: process_line_body)
  qed
  with Cons show ?case by simp
qed

section \<open>Stripping and cleaning\<close>


lemma strip_all_space:
  assumes "list_all isspace s"
  shows "strip s = []"
proof -
  from assms have e: "dropWhile isspace s = []"
    by (induction s) simp_all
  show ?thesis
    unfolding strip_def e by simp
qed

lemma clean_name_markdown:
  assumes "list_all (\<lambda>c. c = 42 \<or> c = 35 \<or> isspace c) line"
  shows "clean_name line = []"
proof -
  from assms have "list_all isspace (replace_del 35 (replace_del 42 line))"
    by (auto simp: replace_del_def list_all_iff)
  then show ?thesis
    by (simp add: clean_name_def strip_all_space)
qed

section \<open>The name of the disease\<close>

lemma disease_name_find:
  assumes "disease_name st = []" and "scan_lines st ls = Inr st'"
  shows "disease_name st' =
     (case find (\<lambda>l. clean_name l \<noteq> []) (disease_lines (current_section st) ls) of
        None \<Rightarrow> [] | Some l \<Rightarrow> clean_name l)"
  using assms
proof (induction ls arbitrary: st)
  case Nil
  then show ?case by simp
next
  case (Cons raw ls)
  obtain st1 where step: "process_line st raw = Inr st1"
    using process_line_total by blast
  with Cons.prems have rest: "scan_lines st1 ls = Inr st'"
    by simp
  have sec: "current_section st1 = section_after (current_section st) raw"
    using step by (rule process_line_section)
  show ?case
  proof (cases "current_section st = Disease \<and> strip raw \<noteq> [] \<and> \<not> is_header (strip raw)")
    case True
    with step Cons.prems(1) have st1: "st1 = st\<lparr>disease_name := clean_name (strip raw)\<rparr>"
      by (simp add: process_line_body)
    show ?thesis
    proof (cases "clean_name (strip raw) = []")
      case True
      with st1 have "disease_name st1 = []" by simp
      from Cons.IH [OF this rest] sec True
        \<open>current_section st = Disease \<and> strip raw \<noteq> [] \<and> \<not> is_header (strip raw)\<close>
      show ?thesis by simp
    next
      case False
      with st1 have "disease_name st1 \<noteq> []" by simp
      with scan_lines_grows [OF rest] st1 have "disease_name st' = clean_name (strip raw)"
        by simp
      with False \<open>current_section st = Disease \<and> strip raw \<noteq> [] \<and> \<not> is_header (strip raw)\<close>
      show ?thesis by simp
    qed
  next
    case False
    have "disease_name st1 = []"
    proof (cases "strip raw = []")
      case True
      with step Cons.prems(1) show ?thesis by (simp add: process_line_blank)
    next
      case nonblank: False
      show ?thesis
      proof (cases "is_header (strip raw)")
        case True
        with nonblank step Cons.prems(1) show ?thesis
          by (auto simp: process_line_header)
      next
        case nohdr: False
        with nonblank False step Cons.prems(1) show ?thesis
          by (auto simp: process_line_body split: section_name.splits if_splits)
      qed
    qed
    from Cons.IH [OF this rest] sec False show ?thesis
      by auto
  qed
qed

section \<open>The properties\<close>

text \<open>
  C1. Totality. The test of the first character raises on the empty line and on no
  other, and the scan reaches it only with a line that is not empty after trimming: for
  every text, the empty one and any sequence of code points included, the classifier
  returns a result record and never an error.
\<close>

theorem classify_total:
  "starts_marked [] = Inl IndexError \<and> (\<exists>a. classify s = Inr a)"
proof
  show "starts_marked [] = Inl IndexError"
    by (simp add: starts_marked_def index0_def)
  obtain st where "scan_lines init_state (split_nl s) = Inr st"
    using scan_lines_total by blast
  then show "\<exists>a. classify s = Inr a"
    by (simp add: classify_def)
qed

theorem classify_total_witness:
  "starts_marked [] = Inl IndexError \<and> (\<exists>a. classify [32, 10, 0, 1114111, 9] = Inr a)"
  by (rule classify_total)

text \<open>
  C2. The text of the four lines "Disease Identification:", "Leaf Scald", "Symptoms:" and
  "- yellow streaks" is classified as the name "Leaf Scald", the one symptom
  "yellow streaks" and no action.
\<close>

theorem classify_leaf_scald:
  "classify (join_nl [str ''Disease Identification:'', str ''Leaf Scald'',
                      str ''Symptoms:'', str ''- yellow streaks''])
   = Inr \<lparr>disease_name = str ''Leaf Scald'', symptoms = [str ''yellow streaks''],
           actions = []\<rparr>"
  by (simp add: eval_defs)

text \<open>
  C3, as stated, fails: the test of line 138 is \<^verbatim>\<open>isdigit\<close>, which also holds for
  digits beyond ASCII. Under a symptoms header the line made of the Devanagari digit one
  (2407), a full stop, a space and "x" is appended, although its first character is
  neither a hyphen, nor the bullet, nor an ASCII digit; nothing is stripped from it.
\<close>
theorem devanagari_digit_accepted:
  "classify (join_nl [str ''Symptoms:'', [2407, 46, 32, 120]])
     = Inr \<lparr>disease_name = [], symptoms = [[2407, 46, 32, 120]], actions = []\<rparr>
   \<and> (2407::nat) \<noteq> 45 \<and> (2407::nat) \<noteq> 8226 \<and> \<not> (48 \<le> (2407::nat) \<and> (2407::nat) \<le> 57)"
  by (simp add: eval_defs isdigit_def digit_ranges_def)

text \<open>
  C3, amended. While the cursor is \<open>Symptoms\<close> or \<open>Actions\<close>, a trimmed line that is
  not a header is appended to the list of that section if and only if its first character
  is a hyphen, the bullet or a character that \<^verbatim>\<open>isdigit\<close> accepts; on an ASCII
  first character \<^verbatim>\<open>isdigit\<close> accepts exactly the digits 0 to 9. An accepted line is
  stored without its longest leading run of hyphens, bullets, ASCII digits, full stops
  and spaces; any other line leaves the state as it is.
\<close>

theorem bullet_acceptance:
  assumes "strip raw \<noteq> []" and "\<not> is_header (strip raw)"
  shows "(current_section st = Symptoms \<longrightarrow>
            process_line st raw =
              Inr (if hd (strip raw) = 45 \<or> hd (strip raw) = 8226 \<or> isdigit (hd (strip raw))
                   then st\<lparr>symptoms := symptoms st @ [dropWhile marker_char (strip raw)]\<rparr>
                   else st))
       \<and> (current_section st = Actions \<longrightarrow>
            process_line st raw =
              Inr (if hd (strip raw) = 45 \<or> hd (strip raw) = 8226 \<or> isdigit (hd (strip raw))
                   then st\<lparr>actions := actions st @ [dropWhile marker_char (strip raw)]\<rparr>
                   else st))
       \<and> (hd (strip raw) < 128 \<longrightarrow>
            isdigit (hd (strip raw)) = (48 \<le> hd (strip raw) \<and> hd (strip raw) \<le> 57))"
  using assms by (simp add: process_line_body bullet_start_def isdigit_ascii)

theorem bullet_acceptance_witness:
  "strip (str ''2. Apply fungicide'') \<noteq> []
   \<and> \<not> is_header (strip (str ''2. Apply fungicide''))
   \<and> process_line \<lparr>disease_name = [], symptoms = [], actions = [], current_section = Actions\<rparr>
        (str ''2. Apply fungicide'')
      = Inr \<lparr>disease_name = [], symptoms = [], actions = [str ''Apply fungicide''],
              current_section = Actions\<rparr>
   \<and> strip (str ''This leaf shows clear signs of stress.'') \<noteq> []
   \<and> \<not> is_header (strip (str ''This leaf shows clear signs of stress.''))
   \<and> process_line \<lparr>disease_name = [], symptoms = [str ''a''], actions = [],
                     current_section = Symptoms\<rparr>
        (str ''This leaf shows clear signs of stress.'')
      = Inr \<lparr>disease_name = [], symptoms = [str ''a''], actions = [], current_section = Symptoms\<rparr>"
  using bullet_acceptance [of "str ''2. Apply fungicide''"
      "\<lparr>disease_name = [], symptoms = [], actions = [], current_section = Actions\<rparr>"]
    bullet_acceptance [of "str ''This leaf shows clear signs of stress.''"
      "\<lparr>disease_name = [], symptoms = [str ''a''], actions = [], current_section = Symptoms\<rparr>"]
  by (simp add: eval_defs is_header_def marker_char_def isdigit_def digit_ranges_def)

text \<open>
  C4. Header priority. For a line that is not empty after trimming: if the disease test
  holds the cursor becomes \<open>Disease\<close>; otherwise, if the symptoms test holds, it
  becomes \<open>Symptoms\<close>, whatever the actions test says; otherwise, if the actions test
  holds, it becomes \<open>Actions\<close>. In each case only the cursor changes: the name and
  both lists stay as they were.
\<close>
theorem header_priority:
  assumes "strip raw \<noteq> []"
  shows "(disease_header (strip raw) \<longrightarrow>
            process_line st raw = Inr (st\<lparr>current_section := Disease\<rparr>))
       \<and> (\<not> disease_header (strip raw) \<and> symptoms_header (strip raw) \<longrightarrow>
            process_line st raw = Inr (st\<lparr>current_section := Symptoms\<rparr>))
       \<and> (\<not> disease_header (strip raw) \<and> \<not> symptoms_header (strip raw)
            \<and> actions_header (strip raw) \<longrightarrow>
            process_line st raw = Inr (st\<lparr>current_section := Actions\<rparr>))"
  using assms
  by (simp add: process_line_disease_header process_line_symptoms_header
      process_line_actions_header)

theorem header_priority_witness:
  "strip (str ''Symptoms and recommended treatment'') \<noteq> []
   \<and> \<not> disease_header (strip (str ''Symptoms and recommended treatment''))
   \<and> symptoms_header (strip (str ''Symptoms and recommended treatment''))
   \<and> actions_header (strip (str ''Symptoms and recommended treatment''))
   \<and> process_line \<lparr>disease_name = str ''Rust'', symptoms = [], actions = [str ''b''],
                     current_section = Actions\<rparr>
        (str ''Symptoms and recommended treatment'')
      = Inr \<lparr>disease_name = str ''Rust'', symptoms = [], actions = [str ''b''],
              current_section = Symptoms\<rparr>"
  using header_priority [of "str ''Symptoms and recommended treatment''"
      "\<lparr>disease_name = str ''Rust'', symptoms = [], actions = [str ''b''],
        current_section = Actions\<rparr>"]
  by (simp add: eval_defs)

text \<open>
  C5, as stated, fails: after the disease header, the two lines "**" and "Rust" give the
  name "Rust", the second line, because the first one is empty once cleaned and so sets
  no name.
\<close>
theorem second_disease_line_kept:
  "classify (join_nl [str ''Disease Identification:'', str ''**'', str ''Rust''])
     = Inr \<lparr>disease_name = str ''Rust'', symptoms = [], actions = []\<rparr>"
  by (simp add: eval_defs)

text \<open>
  C5, amended. While the cursor is \<open>Disease\<close> and the lines that follow are not
  headers: if a name is set, none of them changes anything; if no name is set and the
  first of them is not empty once cleaned, it becomes the name and the later ones are
  ignored. Cleaning removes every asterisk and hash sign and then trims; nothing else is
  changed or checked.
\<close>

theorem first_disease_capture:
  assumes "current_section st = Disease"
    and "strip raw \<noteq> []"
    and "list_all (\<lambda>r. \<not> is_header (strip r)) (raw # rest)"
  shows "(disease_name st \<noteq> [] \<longrightarrow> scan_lines st (raw # rest) = Inr st)
       \<and> (disease_name st = [] \<and> clean_name (strip raw) \<noteq> [] \<longrightarrow>
            scan_lines st (raw # rest) = Inr (st\<lparr>disease_name := clean_name (strip raw)\<rparr>))
       \<and> clean_name (strip raw) = strip (filter (\<lambda>c. c \<noteq> 42 \<and> c \<noteq> 35) (strip raw))"
proof (intro conjI impI)
  assume "disease_name st \<noteq> []"
  with assms show "scan_lines st (raw # rest) = Inr st"
    by (intro scan_lines_plain) simp_all
next
  assume unset: "disease_name st = [] \<and> clean_name (strip raw) \<noteq> []"
  let ?st1 = "st\<lparr>disease_name := clean_name (strip raw)\<rparr>"
  from assms unset have "process_line st raw = Inr ?st1"
    by (simp add: process_line_body)
  moreover from assms unset have "scan_lines ?st1 rest = Inr ?st1"
    by (intro scan_lines_plain) simp_all
  ultimately show "scan_lines st (raw # rest) = Inr ?st1"
    by simp
next
  show "clean_name (strip raw) = strip (filter (\<lambda>c. c \<noteq> 42 \<and> c \<noteq> 35) (strip raw))"
    by (simp add: clean_name_def replace_del_def conj_commute)
qed

theorem first_disease_capture_witness:
  "current_section \<lparr>disease_name = [], symptoms = [], actions = [], current_section = Disease\<rparr>
     = Disease
   \<and> strip (str ''## **Leaf Scald** '') \<noteq> []
   \<and> list_all (\<lambda>r. \<not> is_header (strip r)) [str ''## **Leaf Scald** '', str ''Red Rot'']
   \<and> clean_name (strip (str ''## **Leaf Scald** '')) = str ''Leaf Scald''
   \<and> scan_lines \<lparr>disease_name = [], symptoms = [], actions = [], current_section = Disease\<rparr>
        [str ''## **Leaf Scald** '', str ''Red Rot'']
      = Inr \<lparr>disease_name = str ''Leaf Scald'', symptoms = [], actions = [],
              current_section = Disease\<rparr>"
  using first_disease_capture [of
      "\<lparr>disease_name = [], symptoms = [], actions = [], current_section = Disease\<rparr>"
      "str ''## **Leaf Scald** ''" "[str ''Red Rot'']"]
  by (simp add: eval_defs is_header_def clean_name_def)

text \<open>
  C6. Append only. From any state and over any lines, the symptoms before the scan are a
  prefix of the symptoms after it, likewise the actions, and a name that is set is still
  the name afterwards. This holds from every intermediate state too, so a header met
  again never clears or reorders what its section already holds.
\<close>
theorem append_only:
  assumes "scan_lines st ls = Inr st'"
  shows "prefix (symptoms st) (symptoms st') \<and> prefix (actions st) (actions st')
         \<and> (disease_name st \<noteq> [] \<longrightarrow> disease_name st' = disease_name st)"
  using assms by (rule scan_lines_grows)

theorem append_only_witness:
  "scan_lines \<lparr>disease_name = str ''Rust'', symptoms = [str ''a''], actions = [],
                current_section = Symptoms\<rparr>
     [str ''Actions:'', str ''- b'', str ''Symptoms:'', str ''- c'',
      str ''Disease Identification:'', str ''Wilt'']
   = Inr \<lparr>disease_name = str ''Rust'', symptoms = [str ''a'', str ''c''],
           actions = [str ''b''], current_section = Disease\<rparr>
   \<and> prefix [str ''a''] [str ''a'', str ''c''] \<and> prefix [] [str ''b'']"
proof -
  have run: "scan_lines \<lparr>disease_name = str ''Rust'', symptoms = [str ''a''], actions = [],
                current_section = Symptoms\<rparr>
     [str ''Actions:'', str ''- b'', str ''Symptoms:'', str ''- c'',
      str ''Disease Identification:'', str ''Wilt'']
   = Inr \<lparr>disease_name = str ''Rust'', symptoms = [str ''a'', str ''c''],
           actions = [str ''b''], current_section = Disease\<rparr>"
    by (simp add: eval_defs)
  from append_only [OF run] run show ?thesis by simp
qed

text \<open>
  C7. Fallback. If no line of the text is a header, the classifier returns the empty
  name and two empty lists, and \<^verbatim>\<open>display_results\<close> shows the text itself, as it is,
  between the opening of the container and the notice.
\<close>
theorem no_header_fallback:
  assumes "list_all (\<lambda>l. \<not> is_header (strip l)) (split_nl s)"
  shows \<open>classify s = Inr \<lparr>disease_name = [], symptoms = [], actions = []\<rparr>
       \<and> display_results page s =
           Inr (page @ [Markdown (str ''<div class="result-container">'') True,
                        Markdown s False,
                        Info ([8505, 65039]
                          @ str '' **AI-generated advisory** - For educational purposes only''),
                        Markdown (str ''</div>'') True])\<close>
proof -
  from assms have "scan_lines init_state (split_nl s) = Inr init_state"
    by (intro scan_lines_plain) (simp_all add: init_state_def)
  then have c: "classify s = Inr \<lparr>disease_name = [], symptoms = [], actions = []\<rparr>"
    by (simp add: classify_def init_state_def)
  then show ?thesis
    by (simp add: display_results_def render_def)
qed

theorem no_header_fallback_witness:
  \<open>list_all (\<lambda>l. \<not> is_header (strip l)) (split_nl (str ''I cannot identify this image.''))
   \<and> classify (str ''I cannot identify this image.'')
       = Inr \<lparr>disease_name = [], symptoms = [], actions = []\<rparr>
   \<and> display_results [] (str ''I cannot identify this image.'') =
       Inr [Markdown (str ''<div class="result-container">'') True,
            Markdown (str ''I cannot identify this image.'') False,
            Info ([8505, 65039]
              @ str '' **AI-generated advisory** - For educational purposes only''),
            Markdown (str ''</div>'') True]\<close>
  using no_header_fallback [of "str ''I cannot identify this image.''" "[]"]
  by (simp add: eval_defs is_header_def)




text \<open>
  C10. The name of the disease is the cleaned form of the first line of the disease
  section whose cleaned form is not empty, and it is empty when there is no such line.
  A line made of asterisks, hash signs and white space only is empty once cleaned, so it
  leaves the name unset and the capture goes on to the next line.
\<close>

theorem first_nonempty_disease_line:
  assumes "scan_lines init_state (split_nl s) = Inr st'"
  shows "disease_name st' =
           (case find (\<lambda>l. clean_name l \<noteq> []) (disease_lines NoSection (split_nl s)) of
              None \<Rightarrow> [] | Some l \<Rightarrow> clean_name l)
         \<and> (\<forall>l. list_all (\<lambda>c. c = 42 \<or> c = 35 \<or> isspace c) l \<longrightarrow> clean_name l = [])"
  using disease_name_find [of init_state "split_nl s" st'] assms clean_name_markdown
  by (simp add: init_state_def)

theorem first_nonempty_disease_line_witness:
  "scan_lines init_state
     (split_nl (join_nl [str ''Disease Identification:'', str ''** ##'', str ''Rust'',
                         str ''Wilt'']))
     = Inr \<lparr>disease_name = str ''Rust'', symptoms = [], actions = [],
             current_section = Disease\<rparr>
   \<and> disease_lines NoSection
       (split_nl (join_nl [str ''Disease Identification:'', str ''** ##'', str ''Rust'',
                           str ''Wilt'']))
     = [str ''** ##'', str ''Rust'', str ''Wilt'']
   \<and> clean_name (str ''** ##'') = [] \<and> clean_name (str ''Rust'') = str ''Rust''"
proof -
  have run: "scan_lines init_state
     (split_nl (join_nl [str ''Disease Identification:'', str ''** ##'', str ''Rust'',
                         str ''Wilt'']))
     = Inr \<lparr>disease_name = str ''Rust'', symptoms = [], actions = [],
             current_section = Disease\<rparr>"
    by (simp add: eval_defs)
  from first_nonempty_disease_line [OF run] run show ?thesis
    by (simp add: eval_defs is_header_def section_after_def clean_name_def)
qed

end
